theory Spec2Isabelle
  imports Complex_Main "HOL-Library.Sublist"
begin

section \<open>The task model of \<open>todo_app.py\<close>\<close>

text \<open>
  The clock is what \<open>datetime.now()\<close> returns: a naive local date and time with
  microsecond resolution. Every function that reads the clock takes it as its first
  argument.
\<close>

record datetime =
  year :: nat
  month :: nat
  day :: nat
  hour :: nat
  minute :: nat
  second :: nat
  microsecond :: nat

text \<open>
  Python strings are modelled as \<open>string\<close>, one \<open>char\<close> per character of ASCII text.
\<close>

definition digits :: string where
  "digits = ''0123456789''"

definition digit_char :: "nat \<Rightarrow> char" where
  "digit_char n = digits ! (n mod 10)"

definition zero_pad2 :: "nat \<Rightarrow> string" where
  "zero_pad2 n = [digit_char (n div 10), digit_char n]"

definition zero_pad4 :: "nat \<Rightarrow> string" where
  "zero_pad4 n = [digit_char (n div 1000), digit_char (n div 100), digit_char (n div 10), digit_char n]"

text \<open>\<open>datetime.now().strftime("%Y-%m-%d")\<close>, for the years 1 to 9999 of a datetime.\<close>

definition strftime_Ymd :: "datetime \<Rightarrow> string" where
  "strftime_Ymd now = zero_pad4 (year now) @ ''-'' @ zero_pad2 (month now) @ ''-'' @ zero_pad2 (day now)"

text \<open>
  One record type holds both classes of the source. \<open>deadline = None\<close> is an instance of
  the base class \<open>Task\<close>, which has no \<open>_deadline\<close> attribute; \<open>deadline = Some d\<close> is
  a \<open>DeadlineTask\<close>. The fields have the types of the source's annotations.
\<close>

record task =
  task_id :: int
  title :: string
  description :: string
  category :: string
  completed :: bool
  created_date :: string
  deadline :: "string option"

text \<open>\<open>Task.__init__\<close>: no check of any argument.\<close>

definition Task_init :: "datetime \<Rightarrow> int \<Rightarrow> string \<Rightarrow> string \<Rightarrow> string \<Rightarrow> task" where
  "Task_init now tid ttl descr cat =
     \<lparr>task_id = tid, title = ttl, description = descr, category = cat,
      completed = False, created_date = strftime_Ymd now, deadline = None\<rparr>"

text \<open>\<open>DeadlineTask.__init__\<close>: the base initialiser, then the deadline is stored as given.\<close>

definition DeadlineTask_init :: "datetime \<Rightarrow> int \<Rightarrow> string \<Rightarrow> string \<Rightarrow> string \<Rightarrow> string \<Rightarrow> task" where
  "DeadlineTask_init now tid ttl descr dl cat = (Task_init now tid ttl descr cat)\<lparr>deadline := Some dl\<rparr>"

definition toggle_status :: "task \<Rightarrow> task" where
  "toggle_status t = t\<lparr>completed := \<not> completed t\<rparr>"

definition is_completed :: "task \<Rightarrow> bool" where
  "is_completed t = completed t"

subsection \<open>The persisted file\<close>

text \<open>
  A JSON object of the file, as \<open>to_dict\<close> writes it and \<open>load_tasks\<close> reads it: each
  member is absent (\<open>None\<close>) or carries a value of the type \<open>to_dict\<close> gives it.
  Objects whose members carry values of other types are outside this model.
\<close>

record item =
  j_id :: "int option"
  j_title :: "string option"
  j_description :: "string option"
  j_category :: "string option"
  j_completed :: "bool option"
  j_created_date :: "string option"
  j_type :: "string option"
  j_deadline :: "string option"

text \<open>
  What the loop \<open>for item in data\<close> can meet: an object, a string, or anything else
  (a number, a boolean, \<open>null\<close> or an array).
\<close>

datatype element =
    EObj item
  | EStr string
  | EOther

text \<open>
  What \<open>json.load\<close> can return: an array, an object (here the list of its keys, which
  is what iterating a \<open>dict\<close> yields), a string, or a scalar (a number, a boolean or
  \<open>null\<close>).
\<close>

datatype document =
    JArray "element list"
  | JObject "string list"
  | JString string
  | JScalar

text \<open>
  The state of the file, by what reading it does: \<open>open\<close> raises
  \<open>FileNotFoundError\<close> (\<open>NoFile\<close>); the bytes do not decode as text and reading
  raises \<open>UnicodeDecodeError\<close> (\<open>NotText\<close>); the text is not JSON and \<open>json.load\<close>
  raises \<open>json.JSONDecodeError\<close> (\<open>NotJson\<close>); or \<open>json.load\<close> returns a document.
  \<open>json.dump\<close> followed by \<open>json.load\<close> returns the document it was given, so the
  file holds the decoded document itself.
\<close>

datatype disk =
    NoFile
  | NotText
  | NotJson
  | Json document

datatype py_error =
    KeyError string
  | TypeError
  | UnicodeDecodeError

text \<open>\<open>Task.to_dict\<close> and its override in \<open>DeadlineTask\<close>.\<close>

definition Task_to_dict :: "task \<Rightarrow> item" where
  "Task_to_dict t =
     \<lparr>j_id = Some (task_id t), j_title = Some (title t), j_description = Some (description t),
      j_category = Some (category t), j_completed = Some (completed t),
      j_created_date = Some (created_date t), j_type = Some ''Task'', j_deadline = None\<rparr>"

definition to_dict :: "task \<Rightarrow> item" where
  "to_dict t =
     (case deadline t of
        None \<Rightarrow> Task_to_dict t
      | Some dl \<Rightarrow> (Task_to_dict t)\<lparr>j_deadline := Some dl, j_type := Some ''DeadlineTask''\<rparr>)"

subsection \<open>The task manager\<close>

text \<open>
  The manager's list together with the file it mirrors. \<open>can_write\<close> says whether
  opening the file for writing succeeds; when it does not, \<open>save_tasks\<close> catches the
  \<open>IOError\<close>, prints it, and the file stays as it was.
\<close>

record manager =
  tasks :: "task list"
  on_disk :: disk
  can_write :: bool

definition save_tasks :: "manager \<Rightarrow> manager" where
  "save_tasks m =
     (if can_write m then m\<lparr>on_disk := Json (JArray (map (\<lambda>t. EObj (to_dict t)) (tasks m)))\<rparr> else m)"

text \<open>
  The body of the loop of \<open>load_tasks\<close> on an object. \<open>item["id"]\<close>,
  \<open>item["title"]\<close> and \<open>item["description"]\<close> raise \<open>KeyError\<close> on a missing key,
  in this order; \<open>item.get\<close> supplies a default.
\<close>

definition get_default :: "'a option \<Rightarrow> 'a \<Rightarrow> 'a" where
  "get_default v d = (case v of None \<Rightarrow> d | Some x \<Rightarrow> x)"

definition load_record :: "datetime \<Rightarrow> item \<Rightarrow> py_error + task" where
  "load_record now it =
     (case j_id it of
        None \<Rightarrow> Inl (KeyError ''id'')
      | Some tid \<Rightarrow>
     (case j_title it of
        None \<Rightarrow> Inl (KeyError ''title'')
      | Some ttl \<Rightarrow>
     (case j_description it of
        None \<Rightarrow> Inl (KeyError ''description'')
      | Some descr \<Rightarrow>
          Inr ((DeadlineTask_init now tid ttl descr
                  (get_default (j_deadline it) '''')
                  (get_default (j_category it) ''Umum''))
               \<lparr>completed := get_default (j_completed it) False\<rparr>))))"

text \<open>
  The body of the loop on any element: \<open>item["id"]\<close> raises \<open>TypeError\<close> when
  \<open>item\<close> is a string (its indices must be integers) and when it is a number, a
  boolean, \<open>null\<close> or an array.
\<close>

definition load_item :: "datetime \<Rightarrow> element \<Rightarrow> py_error + task" where
  "load_item now el =
     (case el of
        EObj it \<Rightarrow> load_record now it
      | EStr s \<Rightarrow> Inl TypeError
      | EOther \<Rightarrow> Inl TypeError)"

fun load_items :: "datetime \<Rightarrow> element list \<Rightarrow> task list \<Rightarrow> py_error + task list" where
  "load_items now [] acc = Inr acc"
| "load_items now (el # rest) acc =
     (case load_item now el of
        Inl e \<Rightarrow> Inl e
      | Inr t \<Rightarrow> load_items now rest (acc @ [t]))"

text \<open>
  What \<open>for item in data\<close> iterates over: the elements of an array, the keys of an
  object, the characters of a string; a scalar is not iterable and raises \<open>TypeError\<close>.
\<close>

definition iterate :: "document \<Rightarrow> py_error + element list" where
  "iterate data =
     (case data of
        JArray es \<Rightarrow> Inr es
      | JObject keys \<Rightarrow> Inr (map EStr keys)
      | JString s \<Rightarrow> Inr (map (\<lambda>c. EStr [c]) s)
      | JScalar \<Rightarrow> Inl TypeError)"

text \<open>
  \<open>load_tasks\<close> on the empty list of a new manager. Of the exceptions of the \<open>try\<close>
  block, \<open>FileNotFoundError\<close> is passed over and \<open>json.JSONDecodeError\<close> is printed;
  \<open>UnicodeDecodeError\<close>, \<open>TypeError\<close> and \<open>KeyError\<close> have no handler and reach the
  caller.
\<close>

definition load_tasks :: "datetime \<Rightarrow> disk \<Rightarrow> py_error + task list" where
  "load_tasks now d =
     (case d of
        NoFile \<Rightarrow> Inr []
      | NotText \<Rightarrow> Inl UnicodeDecodeError
      | NotJson \<Rightarrow> Inr []
      | Json data \<Rightarrow>
          (case iterate data of
             Inl e \<Rightarrow> Inl e
           | Inr es \<Rightarrow> load_items now es []))"

text \<open>\<open>TaskManager.__init__\<close>: an exception of \<open>load_tasks\<close> leaves no manager.\<close>

definition TaskManager_init :: "datetime \<Rightarrow> disk \<Rightarrow> bool \<Rightarrow> py_error + manager" where
  "TaskManager_init now d w =
     (case load_tasks now d of
        Inl e \<Rightarrow> Inl e
      | Inr ts \<Rightarrow> Inr \<lparr>tasks = ts, on_disk = d, can_write = w\<rparr>)"

text \<open>A change made to every record of a document, and to nothing else in it.\<close>

definition on_record :: "(item \<Rightarrow> item) \<Rightarrow> element \<Rightarrow> element" where
  "on_record f el = (case el of EObj it \<Rightarrow> EObj (f it) | EStr s \<Rightarrow> EStr s | EOther \<Rightarrow> EOther)"

definition map_records :: "(item \<Rightarrow> item) \<Rightarrow> document \<Rightarrow> document" where
  "map_records f data =
     (case data of
        JArray es \<Rightarrow> JArray (map (on_record f) es)
      | JObject keys \<Rightarrow> JObject keys
      | JString s \<Rightarrow> JString s
      | JScalar \<Rightarrow> JScalar)"

definition add_task :: "task \<Rightarrow> manager \<Rightarrow> manager" where
  "add_task t m = save_tasks (m\<lparr>tasks := tasks m @ [t]\<rparr>)"

text \<open>\<open>list.pop(index)\<close> at an index the guard has checked.\<close>

definition pop :: "nat \<Rightarrow> 'a list \<Rightarrow> 'a list" where
  "pop i xs = take i xs @ drop (Suc i) xs"

definition delete_task :: "int \<Rightarrow> manager \<Rightarrow> manager" where
  "delete_task index m =
     (if 0 \<le> index \<and> index < int (length (tasks m))
      then save_tasks (m\<lparr>tasks := pop (nat index) (tasks m)\<rparr>)
      else m)"

definition toggle_task :: "int \<Rightarrow> manager \<Rightarrow> manager" where
  "toggle_task index m =
     (if 0 \<le> index \<and> index < int (length (tasks m))
      then save_tasks (m\<lparr>tasks := (tasks m)[nat index := toggle_status (tasks m ! nat index)]\<rparr>)
      else m)"

subsection \<open>Text helpers of the view\<close>

text \<open>\<open>str.strip()\<close>: the ASCII characters for which \<open>str.isspace\<close> holds are removed at both ends.\<close>

definition is_space :: "char \<Rightarrow> bool" where
  "is_space c = (c \<in> set [CHR '' '', CHR 0x09, CHR 0x0A, CHR 0x0B, CHR 0x0C, CHR 0x0D,
                           CHR 0x1C, CHR 0x1D, CHR 0x1E, CHR 0x1F])"

definition strip :: "string \<Rightarrow> string" where
  "strip s = rev (dropWhile is_space (rev (dropWhile is_space s)))"

text \<open>\<open>str.lower()\<close> on ASCII text.\<close>

definition lower_char :: "char \<Rightarrow> char" where
  "lower_char c = (let n = (of_char c :: nat) in if 65 \<le> n \<and> n \<le> 90 then char_of (n + 32) else c)"

definition lower :: "string \<Rightarrow> string" where
  "lower s = map lower_char s"

text \<open>Python's \<open>q in s\<close> on strings: \<open>q\<close> occurs in \<open>s\<close> as a contiguous run.\<close>

fun str_in :: "string \<Rightarrow> string \<Rightarrow> bool" where
  "str_in q [] = (q = [])"
| "str_in q (c # s) = (prefix q (c # s) \<or> str_in q s)"

subsection \<open>\<open>datetime.strptime(s, "%d-%m-%Y")\<close>\<close>

text \<open>
  The library compiles the format to the regular expression
  \<^verbatim>\<open>(?P<d>3[0-1]|[1-2]\d|0[1-9]|[1-9]| [1-9])-(?P<m>1[0-2]|0[1-9]|[1-9])-(?P<Y>\d\d\d\d)\<close>,
  matches it at the start of the string, rejects the string when the match does not
  reach its end, and builds a date from the groups, which rejects the year 0 and a day
  the month does not have. An alternative is a sequence of character classes; the
  matcher lists the matches in the order a backtracking matcher tries them, and
  \<open>re.match\<close> takes the first.
\<close>

definition nonzero_digits :: string where
  "nonzero_digits = ''123456789''"

fun match_seq :: "string list \<Rightarrow> string \<Rightarrow> (string \<times> string) option" where
  "match_seq [] s = Some ([], s)"
| "match_seq (cls # rest) [] = None"
| "match_seq (cls # rest) (c # s) =
     (if c \<in> set cls then map_option (\<lambda>(m, r). (c # m, r)) (match_seq rest s) else None)"

definition match_alts :: "string list list \<Rightarrow> string \<Rightarrow> (string \<times> string) list" where
  "match_alts alts s = List.map_filter (\<lambda>alt. match_seq alt s) alts"

fun match_groups :: "string list list list \<Rightarrow> string \<Rightarrow> (string list \<times> string) list" where
  "match_groups [] s = [([], s)]"
| "match_groups (g # gs) s =
     concat (map (\<lambda>(m, r). map (\<lambda>(ms, r'). (m # ms, r')) (match_groups gs r)) (match_alts g s))"

definition re_d :: "string list list" where
  "re_d = [[''3'', ''01''], [''12'', digits], [''0'', nonzero_digits], [nonzero_digits], ['' '', nonzero_digits]]"

definition re_m :: "string list list" where
  "re_m = [[''1'', ''012''], [''0'', nonzero_digits], [nonzero_digits]]"

definition re_Y :: "string list list" where
  "re_Y = [[digits, digits, digits, digits]]"

definition re_dash :: "string list list" where
  "re_dash = [[''-'']]"

text \<open>\<open>int(s)\<close> on a matched group: decimal digits, surrounding blanks ignored.\<close>

definition py_int :: "string \<Rightarrow> nat" where
  "py_int s = foldl (\<lambda>a c. 10 * a + (of_char c - 48)) 0 (strip s)"

definition is_leap :: "nat \<Rightarrow> bool" where
  "is_leap y = (y mod 4 = 0 \<and> (y mod 100 \<noteq> 0 \<or> y mod 400 = 0))"

definition days_in_month :: "nat \<Rightarrow> nat \<Rightarrow> nat" where
  "days_in_month y m =
     (if m = 2 \<and> is_leap y then 29 else [0, 31, 28, 31, 30, 31, 30, 31, 31, 30, 31, 30, 31] ! m)"

definition strptime_dmY :: "string \<Rightarrow> datetime option" where
  "strptime_dmY s =
     (case match_groups [re_d, re_dash, re_m, re_dash, re_Y] s of
        [] \<Rightarrow> None
      | (ms, rest) # _ \<Rightarrow>
          if rest \<noteq> [] then None
          else (case ms of
                  [d, _, m, _, y] \<Rightarrow>
                    if 1 \<le> py_int y \<and> py_int d \<le> days_in_month (py_int y) (py_int m)
                    then Some \<lparr>year = py_int y, month = py_int m, day = py_int d,
                               hour = 0, minute = 0, second = 0, microsecond = 0\<rparr>
                    else None
                | _ \<Rightarrow> None))"

subsection \<open>Differences of datetimes\<close>

definition days_before_year :: "int \<Rightarrow> int" where
  "days_before_year y = (y - 1) * 365 + (y - 1) div 4 - (y - 1) div 100 + (y - 1) div 400"

definition days_before_month :: "nat \<Rightarrow> nat \<Rightarrow> int" where
  "days_before_month y m =
     [0, 0, 31, 59, 90, 120, 151, 181, 212, 243, 273, 304, 334] ! m
       + (if 2 < m \<and> is_leap y then 1 else 0)"

definition ymd2ord :: "nat \<Rightarrow> nat \<Rightarrow> nat \<Rightarrow> int" where
  "ymd2ord y m d = days_before_year (int y) + days_before_month y m + int d"

definition toordinal :: "datetime \<Rightarrow> int" where
  "toordinal dt = ymd2ord (year dt) (month dt) (day dt)"

text \<open>
  \<open>timedelta(days, seconds, microseconds).days\<close>: the constructor normalises seconds
  into \<open>[0, 86400)\<close> and microseconds into \<open>[0, 10^6)\<close>, carrying downwards into days, so
  \<open>days\<close> is the floor of the whole difference in days.
\<close>

definition us_per_day :: int where
  "us_per_day = 86400 * 1000000"

definition timedelta_us :: "int \<Rightarrow> int \<Rightarrow> int \<Rightarrow> int" where
  "timedelta_us d s us = d * us_per_day + s * 1000000 + us"

definition timedelta_days :: "int \<Rightarrow> int \<Rightarrow> int \<Rightarrow> int" where
  "timedelta_days d s us = timedelta_us d s us div us_per_day"

definition seconds_of_day :: "datetime \<Rightarrow> int" where
  "seconds_of_day dt = int (hour dt) * 3600 + int (minute dt) * 60 + int (second dt)"

text \<open>\<open>(a - b).days\<close> for two naive datetimes.\<close>

definition datetime_sub_days :: "datetime \<Rightarrow> datetime \<Rightarrow> int" where
  "datetime_sub_days a b =
     timedelta_days (toordinal a - toordinal b) (seconds_of_day a - seconds_of_day b)
       (int (microsecond a) - int (microsecond b))"

text \<open>The exact difference \<open>a - b\<close> in microseconds.\<close>

definition datetime_sub_us :: "datetime \<Rightarrow> datetime \<Rightarrow> int" where
  "datetime_sub_us a b =
     timedelta_us (toordinal a - toordinal b) (seconds_of_day a - seconds_of_day b)
       (int (microsecond a) - int (microsecond b))"

subsection \<open>The view: adding a task\<close>

datatype dialog =
    ShowWarning string string
  | ShowInfo string string
  | ShowError string string

text \<open>\<open>max(ids, default=0)\<close>.\<close>

definition max_default :: "int list \<Rightarrow> int \<Rightarrow> int" where
  "max_default xs d = (case xs of [] \<Rightarrow> d | x # rest \<Rightarrow> foldl max x rest)"

text \<open>The id \<open>_add_task\<close> computes for the next task.\<close>

definition next_task_id :: "task list \<Rightarrow> int" where
  "next_task_id ts = max_default (map task_id ts) 0 + 1"

text \<open>
  \<open>TodoApp._add_task\<close> on the contents of the four entry widgets. The three guards
  return after a warning dialog; nothing is raised. With integer ids nothing in the
  second \<open>try\<close> block raises, so its \<open>except Exception\<close> branch is never taken.
\<close>

definition TodoApp_add_task ::
  "datetime \<Rightarrow> string \<Rightarrow> string \<Rightarrow> string \<Rightarrow> string \<Rightarrow> manager \<Rightarrow> dialog \<times> manager" where
  "TodoApp_add_task now title_entry desc_entry category_cb deadline_entry m =
     (let ttl = strip title_entry;
          descr = strip desc_entry;
          cat = category_cb;
          dl = strip deadline_entry
      in if ttl = [] then (ShowWarning ''Input Error'' ''Judul task tidak boleh kosong!'', m)
         else if dl = [] then (ShowWarning ''Input Error'' ''Deadline tidak boleh kosong!'', m)
         else (case strptime_dmY dl of
                 None \<Rightarrow>
                   (ShowWarning ''Format Error''
                      (''Format deadline harus DD-MM-YYYY'' @ [CHR 0x0A] @ ''Contoh: 25-12-2026''), m)
               | Some _ \<Rightarrow>
                   (let tid = next_task_id (tasks m);
                        t = DeadlineTask_init now tid ttl descr dl cat
                    in (ShowInfo ''Success'' (''Task '' @ [CHR 0x27] @ ttl @ [CHR 0x27] @ '' berhasil ditambahkan!''),
                        add_task t m))))"

text \<open>Sequences of user operations: adding through the form, deleting a position.\<close>

datatype op =
    Add string string string string
  | Delete int

fun apply_op :: "datetime \<Rightarrow> manager \<Rightarrow> op \<Rightarrow> manager" where
  "apply_op now m (Add title_entry desc_entry category_cb deadline_entry) =
     snd (TodoApp_add_task now title_entry desc_entry category_cb deadline_entry m)"
| "apply_op now m (Delete index) = delete_task index m"

definition run :: "datetime \<Rightarrow> op list \<Rightarrow> manager \<Rightarrow> manager" where
  "run now ops m = foldl (apply_op now) m ops"

text \<open>The manager of a first start: no file yet.\<close>

definition empty_manager :: manager where
  "empty_manager = \<lparr>tasks = [], on_disk = NoFile, can_write = True\<rparr>"

subsection \<open>The view: the list and the progress line (\<open>_refresh_list\<close>)\<close>

text \<open>The tag of a row: \<open>Completed\<close> is the spec's Done.\<close>

datatype tag = Completed | Urgent | Pending

text \<open>
  The bare \<open>except\<close> turns every failure of the \<open>try\<close> block into \<open>Pending\<close>: the
  \<open>ValueError\<close> of \<open>strptime\<close>, and the \<open>AttributeError\<close> of reading \<open>deadline\<close> from
  a plain \<open>Task\<close>.
\<close>

definition status_tag :: "datetime \<Rightarrow> task \<Rightarrow> tag" where
  "status_tag now t =
     (if is_completed t then Completed
      else (case deadline t of
              None \<Rightarrow> Pending
            | Some dl \<Rightarrow>
                (case strptime_dmY dl of
                   None \<Rightarrow> Pending
                 | Some deadline_date \<Rightarrow>
                     (let days_left = datetime_sub_days deadline_date now
                      in if days_left < 3 then Urgent else Pending))))"

definition combined_text :: "task \<Rightarrow> string" where
  "combined_text t = lower (title t @ '' '' @ description t @ '' '' @ category t)"

text \<open>The rows inserted into the tree, in order: position, task and tag.\<close>

definition refresh_rows :: "datetime \<Rightarrow> string \<Rightarrow> task list \<Rightarrow> (nat \<times> task \<times> tag) list" where
  "refresh_rows now search_var ts =
     (let query = lower (strip search_var)
      in map (\<lambda>(idx, t). (idx, t, status_tag now t))
           (filter (\<lambda>(idx, t). \<not> (query \<noteq> [] \<and> \<not> str_in query (combined_text t)))
              (enumerate 0 ts)))"

text \<open>
  Python floats are binary64. A finite float is modelled by its exact rational value;
  \<open>float_round\<close> is rounding to the nearest float, ties to even, for results in the
  normal range (between \<open>2^-1022\<close> and \<open>2^1024\<close> in magnitude), which is where the
  quotients and products of the progress line lie.
\<close>

definition pow2 :: "int \<Rightarrow> rat" where
  "pow2 k = (if 0 \<le> k then 2 ^ nat k else 1 / 2 ^ nat (- k))"

function floor_log2 :: "int \<Rightarrow> int" where
  "floor_log2 n = (if n < 2 then 0 else 1 + floor_log2 (n div 2))"
  by pat_completeness auto
termination
  by (relation "measure nat") auto

text \<open>The \<open>e\<close> with \<open>2^e \<le> x < 2^(e+1)\<close>, for positive \<open>x\<close>.\<close>

definition binary_exponent :: "rat \<Rightarrow> int" where
  "binary_exponent x =
     (let (n, d) = quotient_of x;
          k = floor_log2 n - floor_log2 d
      in if pow2 k \<le> x then k else k - 1)"

definition round_half_even :: "rat \<Rightarrow> int" where
  "round_half_even x =
     (let f = \<lfloor>x\<rfloor>; r = x - of_int f
      in if r < 1 / 2 then f else if 1 / 2 < r then f + 1 else if even f then f else f + 1)"

definition float_round :: "rat \<Rightarrow> rat" where
  "float_round x =
     (if x = 0 then 0
      else (let e = binary_exponent \<bar>x\<bar> - 52
            in sgn x * of_int (round_half_even (\<bar>x\<bar> / pow2 e)) * pow2 e))"

text \<open>\<open>a / b\<close> on ints (the correctly rounded quotient) and \<open>x * y\<close> on floats.\<close>

definition int_truediv :: "int \<Rightarrow> int \<Rightarrow> rat" where
  "int_truediv a b = float_round (of_int a / of_int b)"

definition float_mul :: "rat \<Rightarrow> rat \<Rightarrow> rat" where
  "float_mul x y = float_round (x * y)"

text \<open>\<open>int(x)\<close> on a float: truncation towards zero.\<close>

definition int_of_float :: "rat \<Rightarrow> int" where
  "int_of_float x = (if 0 \<le> x then \<lfloor>x\<rfloor> else \<lceil>x\<rceil>)"

record progress =
  p_total :: int
  p_done :: int
  p_pending :: int
  p_percentage :: int

text \<open>The four numbers of the status line.\<close>

definition progress_summary :: "task list \<Rightarrow> progress" where
  "progress_summary ts =
     (let total = int (length ts);
          dn = (\<Sum>t \<leftarrow> filter is_completed ts. 1);
          pending = total - dn;
          percentage = (if total > 0 then int_of_float (float_mul (int_truediv dn total) 100) else 0)
      in \<lparr>p_total = total, p_done = dn, p_pending = pending, p_percentage = percentage\<rparr>)"

text \<open>The time of day of a datetime, in microseconds since midnight.\<close>

definition time_of_day_us :: "datetime \<Rightarrow> int" where
  "time_of_day_us dt = seconds_of_day dt * 1000000 + int (microsecond dt)"

subsection \<open>The specification's wording, for comparison\<close>

text \<open>
  Urgency as the specification words it: urgent when not completed and the deadline is
  fewer than 3 days from the current date, both taken as calendar dates.
\<close>

definition spec_urgency_label :: "datetime \<Rightarrow> task \<Rightarrow> tag" where
  "spec_urgency_label today t =
     (if completed t then Completed
      else (case deadline t of
              None \<Rightarrow> Pending
            | Some dl \<Rightarrow>
                (case strptime_dmY dl of
                   None \<Rightarrow> Pending
                 | Some deadline_date \<Rightarrow>
                     if toordinal deadline_date - toordinal today < 3 then Urgent else Pending)))"

text \<open>The percentage as the specification words it: \<open>round(done / total * 100)\<close>, else 0.\<close>

definition spec_percent :: "int \<Rightarrow> int \<Rightarrow> int" where
  "spec_percent dn n = (if n > 0 then round (of_int dn / of_int n * 100 :: rat) else 0)"

text \<open>
  The query as the specification words it: the tasks, with their positions, of which the
  title, the description or the category contains the filter text case-insensitively.
\<close>

definition contains_ci :: "string \<Rightarrow> string \<Rightarrow> bool" where
  "contains_ci field x = str_in (lower x) (lower field)"

definition spec_query :: "string \<Rightarrow> task list \<Rightarrow> (nat \<times> task) list" where
  "spec_query x ts =
     filter (\<lambda>(idx, t). contains_ci (title t) x \<or> contains_ci (description t) x \<or> contains_ci (category t) x)
       (enumerate 0 ts)"

subsection \<open>Sample data\<close>

definition sample_now :: datetime where
  "sample_now = \<lparr>year = 2026, month = 11, day = 4, hour = 10, minute = 0, second = 0, microsecond = 0\<rparr>"

definition sample_tasks :: "task list" where
  "sample_tasks =
     [DeadlineTask_init sample_now 1 ''Laporan'' ''bab 1'' ''07-11-2026'' ''Kuliah'',
      (DeadlineTask_init sample_now 2 ''Belanja'' '''' ''20-11-2026'' ''Umum'')\<lparr>completed := True\<rparr>]"

definition sample_manager :: manager where
  "sample_manager = \<lparr>tasks = sample_tasks, on_disk = NoFile, can_write = True\<rparr>"

section \<open>Properties\<close>

subsection \<open>Loading and saving\<close>

lemma tasks_save_tasks: "tasks (save_tasks m) = tasks m"
  by (simp add: save_tasks_def)






lemma load_item_fresh:
  "load_item now el = Inr t \<Longrightarrow> created_date t = strftime_Ymd now \<and> deadline t \<noteq> None"
  by (cases el)
     (auto simp: load_item_def load_record_def DeadlineTask_init_def Task_init_def split: option.splits)

lemma load_item_ignores:
  "load_item now (on_record (\<lambda>it. it\<lparr>j_created_date := c it, j_type := ty it\<rparr>) el) = load_item now el"
  by (cases el) (simp_all add: on_record_def load_item_def load_record_def split: option.splits)

lemma load_item_to_dict:
  "deadline t \<noteq> None \<Longrightarrow> load_item now (EObj (to_dict t)) = Inr (t\<lparr>created_date := strftime_Ymd now\<rparr>)"
  by (cases "deadline t")
     (simp_all add: load_item_def load_record_def to_dict_def Task_to_dict_def DeadlineTask_init_def
        Task_init_def get_default_def)

lemma load_items_map:
  "\<forall>el\<in>set es. load_item now el = Inr (f el) \<Longrightarrow> load_items now es acc = Inr (acc @ map f es)"
  by (induction es arbitrary: acc) simp_all



lemma load_items_cong:
  "\<forall>el\<in>set es. load_item now (g el) = load_item now el \<Longrightarrow>
     load_items now (map g es) acc = load_items now es acc"
  by (induction es arbitrary: acc) (simp_all split: sum.splits)

lemma load_items_fresh:
  "load_items now es acc = Inr ts \<Longrightarrow>
     \<forall>t\<in>set ts. t \<in> set acc \<or> (created_date t = strftime_Ymd now \<and> deadline t \<noteq> None)"
proof (induction es arbitrary: acc)
  case Nil
  then show ?case by simp
next
  case (Cons el rest)
  then obtain t where t: "load_item now el = Inr t" and r: "load_items now rest (acc @ [t]) = Inr ts"
    by (auto split: sum.splits)
  from Cons.IH [OF r] load_item_fresh [OF t] show ?case by auto
qed

lemma load_tasks_array: "load_tasks now (Json (JArray es)) = load_items now es []"
  by (simp add: load_tasks_def iterate_def)

lemma load_saved:
  assumes "\<forall>t\<in>set ts. deadline t \<noteq> None"
  shows "load_tasks now (Json (JArray (map (\<lambda>t. EObj (to_dict t)) ts)))
           = Inr (map (\<lambda>t. t\<lparr>created_date := strftime_Ymd now\<rparr>) ts)"
proof -
  have "\<forall>el\<in>set (map (\<lambda>t. EObj (to_dict t)) ts).
          load_item now el = Inr ((\<lambda>el. case load_item now el of Inr t \<Rightarrow> t) el)"
    using assms by (auto simp: load_item_to_dict)
  from load_items_map [OF this, of "[]"]
  have "load_items now (map (\<lambda>t. EObj (to_dict t)) ts) []
          = Inr (map (\<lambda>t. case load_item now (EObj (to_dict t)) of Inr t \<Rightarrow> t) ts)"
    by (simp add: comp_def)
  also have "map (\<lambda>t. case load_item now (EObj (to_dict t)) of Inr t \<Rightarrow> t) ts
             = map (\<lambda>t. t\<lparr>created_date := strftime_Ymd now\<rparr>) ts"
    using assms by (simp add: load_item_to_dict)
  finally show ?thesis by (simp add: load_tasks_array)
qed


text \<open>
  C1. Persistence round-trip: when the write succeeds and the store holds deadline
  tasks (the only kind the application creates), a manager constructed from the file
  that \<open>save_tasks\<close> wrote has a task list of the same length whose tasks agree with
  the saved ones, position by position, on id, title, description, category, deadline
  and completion flag.
\<close>

theorem persistence_round_trip:
  assumes "can_write m" and "\<forall>t\<in>set (tasks m). deadline t \<noteq> None"
  shows "\<exists>m'. TaskManager_init now (on_disk (save_tasks m)) w = Inr m'
           \<and> length (tasks m') = length (tasks m)
           \<and> (\<forall>i<length (tasks m).
                 task_id (tasks m' ! i) = task_id (tasks m ! i)
               \<and> title (tasks m' ! i) = title (tasks m ! i)
               \<and> description (tasks m' ! i) = description (tasks m ! i)
               \<and> category (tasks m' ! i) = category (tasks m ! i)
               \<and> deadline (tasks m' ! i) = deadline (tasks m ! i)
               \<and> completed (tasks m' ! i) = completed (tasks m ! i))"
proof -
  from assms(1) have "on_disk (save_tasks m) = Json (JArray (map (\<lambda>t. EObj (to_dict t)) (tasks m)))"
    by (simp add: save_tasks_def)
  with load_saved [OF assms(2), of now]
  show ?thesis
    by (simp add: TaskManager_init_def)
qed

theorem persistence_round_trip_witness:
  "can_write sample_manager
   \<and> map deadline (tasks sample_manager) = [Some ''07-11-2026'', Some ''20-11-2026'']
   \<and> (\<exists>m'. TaskManager_init sample_now (on_disk (save_tasks sample_manager)) True = Inr m'
           \<and> length (tasks m') = length (tasks sample_manager)
           \<and> (\<forall>i<length (tasks sample_manager).
                 task_id (tasks m' ! i) = task_id (tasks sample_manager ! i)
               \<and> title (tasks m' ! i) = title (tasks sample_manager ! i)
               \<and> description (tasks m' ! i) = description (tasks sample_manager ! i)
               \<and> category (tasks m' ! i) = category (tasks sample_manager ! i)
               \<and> deadline (tasks m' ! i) = deadline (tasks sample_manager ! i)
               \<and> completed (tasks m' ! i) = completed (tasks sample_manager ! i)))"
proof -
  have h1: "can_write sample_manager"
    by (simp add: sample_manager_def)
  have h2: "\<forall>t\<in>set (tasks sample_manager). deadline t \<noteq> None"
    by (simp add: sample_manager_def sample_tasks_def DeadlineTask_init_def)
  have h3: "map deadline (tasks sample_manager) = [Some ''07-11-2026'', Some ''20-11-2026'']"
    by (simp add: sample_manager_def sample_tasks_def DeadlineTask_init_def)
  from persistence_round_trip [OF h1 h2, of sample_now True] h1 h3 show ?thesis
    by blast
qed

text \<open>
  C10. Loading does not restore the persisted creation date: every task that
  \<open>load_tasks\<close> builds carries the date of the clock at load time and is a
  \<open>DeadlineTask\<close>, and replacing the \<open>created_date\<close> and \<open>type\<close> members of the
  records of the file by any other values leaves the loaded list the same.
\<close>

theorem load_restamps_created_date:
  assumes "load_tasks now (Json data) = Inr ts"
  shows "(\<forall>t\<in>set ts. created_date t = strftime_Ymd now \<and> deadline t \<noteq> None)
         \<and> load_tasks now (Json (map_records (\<lambda>it. it\<lparr>j_created_date := c it, j_type := ty it\<rparr>) data)) = Inr ts"
proof -
  let ?g = "on_record (\<lambda>it. it\<lparr>j_created_date := c it, j_type := ty it\<rparr>)"
  from assms obtain es where it: "iterate data = Inr es" and l: "load_items now es [] = Inr ts"
    by (auto simp: load_tasks_def split: sum.splits)
  from load_items_fresh [OF l]
  have fresh: "\<forall>t\<in>set ts. created_date t = strftime_Ymd now \<and> deadline t \<noteq> None"
    by simp
  have "iterate (map_records (\<lambda>it. it\<lparr>j_created_date := c it, j_type := ty it\<rparr>) data) = Inr (map ?g es)"
    using it by (cases data) (auto simp: iterate_def map_records_def on_record_def)
  moreover have "load_items now (map ?g es) [] = load_items now es []"
    by (rule load_items_cong) (simp add: load_item_ignores)
  ultimately have "load_tasks now (Json (map_records (\<lambda>it. it\<lparr>j_created_date := c it, j_type := ty it\<rparr>) data)) = Inr ts"
    using l by (simp add: load_tasks_def)
  with fresh show ?thesis by simp
qed

theorem load_restamps_created_date_witness:
  "load_tasks sample_now
     (Json (JArray [EObj \<lparr>j_id = Some 7, j_title = Some ''Laporan'', j_description = Some ''bab 1'',
             j_category = None, j_completed = Some True, j_created_date = Some ''2020-01-31'',
             j_type = Some ''Task'', j_deadline = None\<rparr>]))
   = Inr [\<lparr>task_id = 7, title = ''Laporan'', description = ''bab 1'', category = ''Umum'',
           completed = True, created_date = ''2026-11-04'', deadline = Some ''''\<rparr>]
   \<and> load_tasks sample_now
     (Json (JArray [EObj \<lparr>j_id = Some 7, j_title = Some ''Laporan'', j_description = Some ''bab 1'',
             j_category = None, j_completed = Some True, j_created_date = None,
             j_type = Some ''DeadlineTask'', j_deadline = None\<rparr>]))
   = Inr [\<lparr>task_id = 7, title = ''Laporan'', description = ''bab 1'', category = ''Umum'',
           completed = True, created_date = ''2026-11-04'', deadline = Some ''''\<rparr>]"
proof -
  have h: "load_tasks sample_now
     (Json (JArray [EObj \<lparr>j_id = Some 7, j_title = Some ''Laporan'', j_description = Some ''bab 1'',
             j_category = None, j_completed = Some True, j_created_date = Some ''2020-01-31'',
             j_type = Some ''Task'', j_deadline = None\<rparr>]))
   = Inr [\<lparr>task_id = 7, title = ''Laporan'', description = ''bab 1'', category = ''Umum'',
           completed = True, created_date = ''2026-11-04'', deadline = Some ''''\<rparr>]"
    by (simp add: load_tasks_array load_item_def load_record_def DeadlineTask_init_def Task_init_def
         get_default_def strftime_Ymd_def sample_now_def zero_pad4_def zero_pad2_def digit_char_def digits_def)
  from load_restamps_created_date [where c = "\<lambda>it. None" and ty = "\<lambda>it. Some ''DeadlineTask''", OF h] h
  show ?thesis by (simp add: map_records_def on_record_def)
qed




subsection \<open>Positions and ids\<close>

text \<open>
  C8. Bounds safety: for a position below 0 or at least the number of tasks,
  \<open>delete_task\<close> and \<open>toggle_task\<close> return the manager as it was (task list and file)
  and raise nothing; in particular at \<open>-1\<close> and at the count.
\<close>

theorem bounds_safety:
  "index < 0 \<or> int (length (tasks m)) \<le> index \<Longrightarrow>
     delete_task index m = m \<and> toggle_task index m = m"
  by (auto simp: delete_task_def toggle_task_def)

theorem bounds_safety_witness:
  "((-1::int) < 0 \<or> int (length (tasks sample_manager)) \<le> -1)
   \<and> delete_task (-1) sample_manager = sample_manager
   \<and> toggle_task (-1) sample_manager = sample_manager
   \<and> ((2::int) < 0 \<or> int (length (tasks sample_manager)) \<le> 2)
   \<and> delete_task 2 sample_manager = sample_manager
   \<and> toggle_task 2 sample_manager = sample_manager"
proof -
  have "int (length (tasks sample_manager)) \<le> 2"
    by (simp add: sample_manager_def sample_tasks_def)
  with bounds_safety [of "-1" sample_manager] bounds_safety [of 2 sample_manager]
  show ?thesis by simp
qed

lemma max_default_Max: "xs \<noteq> [] \<Longrightarrow> max_default xs d = Max (set xs)"
proof (cases xs)
  case Nil
  assume "xs \<noteq> []"
  with Nil show ?thesis by simp
next
  case (Cons x rest)
  have "foldl max x rest = Max (set (x # rest))"
  proof (induction rest arbitrary: x)
    case Nil
    show ?case by simp
  next
    case (Cons y ys)
    have "foldl max x (y # ys) = foldl max (max x y) ys" by simp
    also have "\<dots> = Max (set (max x y # ys))" by (rule Cons.IH)
    also have "\<dots> = Max (set (x # y # ys))"
      by (cases "ys = []") (auto simp: max.assoc max.commute max.left_commute)
    finally show ?case .
  qed
  with Cons show ?thesis by (simp add: max_default_def)
qed

lemma next_task_id_eq:
  "next_task_id ts = (if ts = [] then 1 else Max (task_id ` set ts) + 1)"
proof (cases "ts = []")
  case True
  then show ?thesis by (simp add: next_task_id_def max_default_def)
next
  case False
  then have "map task_id ts \<noteq> []" by simp
  from max_default_Max [OF this] False show ?thesis
    by (simp add: next_task_id_def)
qed

lemma add_task_handler_cases:
  "TodoApp_add_task now te de cc dle m =
     (if strip te = [] then (ShowWarning ''Input Error'' ''Judul task tidak boleh kosong!'', m)
      else if strip dle = [] then (ShowWarning ''Input Error'' ''Deadline tidak boleh kosong!'', m)
      else if strptime_dmY (strip dle) = None
        then (ShowWarning ''Format Error''
               (''Format deadline harus DD-MM-YYYY'' @ [CHR 0x0A] @ ''Contoh: 25-12-2026''), m)
      else (ShowInfo ''Success'' (''Task '' @ [CHR 0x27] @ strip te @ [CHR 0x27] @ '' berhasil ditambahkan!''),
            add_task (DeadlineTask_init now (next_task_id (tasks m)) (strip te) (strip de) (strip dle) cc) m))"
  by (auto simp: TodoApp_add_task_def Let_def split: option.splits)

text \<open>
  C7. Id assignment: whenever \<open>_add_task\<close> creates a task, the task appended to the
  store has id 1 if the store was empty, and one plus the maximum id present otherwise.
\<close>

theorem id_assignment:
  assumes "TodoApp_add_task now te de cc dle m = (ShowInfo a b, m')"
  shows "\<exists>t. tasks m' = tasks m @ [t]
            \<and> task_id t = (if tasks m = [] then 1 else Max (task_id ` set (tasks m)) + 1)"
proof -
  let ?t = "DeadlineTask_init now (next_task_id (tasks m)) (strip te) (strip de) (strip dle) cc"
  from assms have "m' = add_task ?t m"
    by (simp add: add_task_handler_cases split: if_splits)
  then have "tasks m' = tasks m @ [?t]"
    by (simp add: add_task_def tasks_save_tasks)
  moreover have "task_id ?t = next_task_id (tasks m)"
    by (simp add: DeadlineTask_init_def Task_init_def)
  ultimately show ?thesis
    by (auto simp: next_task_id_eq)
qed

lemma strip_samples:
  "strip ''a'' = ''a''" "strip ''b'' = ''b''" "strip '''' = ''''" "strip ''  '' = ''''"
  "strip ''x'' = ''x''" "strip ''Tugas'' = ''Tugas''" "strip ''07-11-2026'' = ''07-11-2026''"
  by code_simp+

lemma strptime_sample:
  "strptime_dmY ''07-11-2026''
   = Some \<lparr>year = 2026, month = 11, day = 7, hour = 0, minute = 0, second = 0, microsecond = 0\<rparr>"
  by code_simp

theorem id_assignment_witness:
  "\<exists>a b m'. TodoApp_add_task sample_now ''Tugas'' ''x'' ''Umum'' ''07-11-2026'' sample_manager = (ShowInfo a b, m')
      \<and> (\<exists>t. tasks m' = tasks sample_manager @ [t] \<and> task_id t = 3)"
proof -
  obtain a b m' where
    h: "TodoApp_add_task sample_now ''Tugas'' ''x'' ''Umum'' ''07-11-2026'' sample_manager = (ShowInfo a b, m')"
    by (simp add: add_task_handler_cases strip_samples strptime_sample)
  have "(if tasks sample_manager = [] then 1 else Max (task_id ` set (tasks sample_manager)) + 1) = (3::int)"
    by (simp add: sample_manager_def sample_tasks_def DeadlineTask_init_def Task_init_def)
  with id_assignment [OF h] h show ?thesis
    by auto
qed

lemma sorted_pop: "sorted_wrt P xs \<Longrightarrow> sorted_wrt P (pop i xs)"
proof -
  assume s: "sorted_wrt P xs"
  have "sorted_wrt P (take i xs @ drop i xs)" using s by simp
  then have cross: "\<forall>x\<in>set (take i xs). \<forall>y\<in>set (drop i xs). P x y"
    unfolding sorted_wrt_append by blast
  have "set (drop (Suc i) xs) \<subseteq> set (drop i xs)"
    by (rule set_drop_subset_set_drop) simp
  with cross have "\<forall>x\<in>set (take i xs). \<forall>y\<in>set (drop (Suc i) xs). P x y" by blast
  with s show ?thesis
    by (simp add: pop_def sorted_wrt_append sorted_wrt_take sorted_wrt_drop)
qed

lemma map_pop: "map f (pop i xs) = pop i (map f xs)"
  by (simp add: pop_def take_map drop_map)

lemma next_task_id_greater: "t \<in> set ts \<Longrightarrow> task_id t < next_task_id ts"
proof -
  assume t: "t \<in> set ts"
  then have "task_id t \<le> Max (task_id ` set ts)" by simp
  with t show ?thesis by (auto simp: next_task_id_eq)
qed

lemma tasks_add_task_handler:
  "tasks (snd (TodoApp_add_task now te de cc dle m)) =
     (if strip te = [] \<or> strip dle = [] \<or> strptime_dmY (strip dle) = None then tasks m
      else tasks m @ [DeadlineTask_init now (next_task_id (tasks m)) (strip te) (strip de) (strip dle) cc])"
  by (simp add: add_task_handler_cases add_task_def tasks_save_tasks)

lemma tasks_delete_task:
  "tasks (delete_task index m) =
     (if 0 \<le> index \<and> index < int (length (tasks m)) then pop (nat index) (tasks m) else tasks m)"
  by (simp add: delete_task_def tasks_save_tasks)

lemma apply_op_sorted:
  assumes "sorted_wrt (<) (map task_id (tasks m))"
  shows "sorted_wrt (<) (map task_id (tasks (apply_op now m op)))"
proof (cases op)
  case (Add te de cc dle)
  have "task_id (DeadlineTask_init now (next_task_id (tasks m)) (strip te) (strip de) (strip dle) cc)
        = next_task_id (tasks m)"
    by (simp add: DeadlineTask_init_def Task_init_def)
  with assms Add show ?thesis
    by (auto simp: tasks_add_task_handler sorted_wrt_append next_task_id_greater)
next
  case (Delete index)
  with assms show ?thesis
    by (simp add: tasks_delete_task map_pop sorted_pop)
qed

lemma run_sorted:
  "sorted_wrt (<) (map task_id (tasks m)) \<Longrightarrow> sorted_wrt (<) (map task_id (tasks (run now ops m)))"
  unfolding run_def
  by (induction ops arbitrary: m) (simp_all add: apply_op_sorted)

text \<open>
  C4 as stated fails: from the empty store, add gives id 1, delete(0) removes that task,
  and the next add gives id 1 again, to a different task.
\<close>

theorem id_reuse_counterexample:
  "map task_id (tasks (run sample_now [Add ''a'' '''' ''Umum'' ''07-11-2026''] empty_manager)) = [1]
   \<and> tasks (run sample_now [Add ''a'' '''' ''Umum'' ''07-11-2026'', Delete 0] empty_manager) = []
   \<and> map (\<lambda>t. (task_id t, title t))
        (tasks (run sample_now [Add ''a'' '''' ''Umum'' ''07-11-2026'', Delete 0,
                                Add ''b'' '''' ''Umum'' ''07-11-2026''] empty_manager))
      = [(1, ''b'')]"
  by (simp add: run_def tasks_add_task_handler tasks_delete_task strip_samples strptime_sample
        next_task_id_def max_default_def pop_def empty_manager_def DeadlineTask_init_def Task_init_def)

text \<open>
  C4, amended. Over every sequence of add and delete operations from the empty store,
  every id assigned next is strictly greater than every id then present, so the ids
  in the store are strictly increasing along the sequence and pairwise distinct. An id
  removed by delete is therefore not assigned again while a task with that id or a
  larger one remains; deleting the task with the largest id frees that id.
\<close>

theorem id_discipline:
  "sorted_wrt (<) (map task_id (tasks (run now ops empty_manager)))
   \<and> distinct (map task_id (tasks (run now ops empty_manager)))
   \<and> (\<forall>t\<in>set (tasks (run now ops empty_manager)).
         task_id t < next_task_id (tasks (run now ops empty_manager)))"
proof -
  have s: "sorted_wrt (<) (map task_id (tasks (run now ops empty_manager)))"
    by (rule run_sorted) (simp add: empty_manager_def)
  then have "distinct (map task_id (tasks (run now ops empty_manager)))"
    by (simp add: strict_sorted_iff)
  with s show ?thesis
    by (simp add: next_task_id_greater)
qed

theorem id_discipline_witness:
  "sorted_wrt (<) (map task_id (tasks (run sample_now
      [Add ''a'' '''' ''Umum'' ''07-11-2026'', Add ''b'' '''' ''Umum'' ''07-11-2026'', Delete 0] empty_manager)))
   \<and> distinct (map task_id (tasks (run sample_now
      [Add ''a'' '''' ''Umum'' ''07-11-2026'', Add ''b'' '''' ''Umum'' ''07-11-2026'', Delete 0] empty_manager)))
   \<and> map task_id (tasks (run sample_now
      [Add ''a'' '''' ''Umum'' ''07-11-2026'', Add ''b'' '''' ''Umum'' ''07-11-2026'', Delete 0] empty_manager)) = [2]
   \<and> task_id (hd (tasks (run sample_now
      [Add ''a'' '''' ''Umum'' ''07-11-2026'', Add ''b'' '''' ''Umum'' ''07-11-2026'', Delete 0] empty_manager)))
       < next_task_id (tasks (run sample_now
      [Add ''a'' '''' ''Umum'' ''07-11-2026'', Add ''b'' '''' ''Umum'' ''07-11-2026'', Delete 0] empty_manager))"
proof -
  let ?ts = "tasks (run sample_now
      [Add ''a'' '''' ''Umum'' ''07-11-2026'', Add ''b'' '''' ''Umum'' ''07-11-2026'', Delete 0] empty_manager)"
  have ids: "map task_id ?ts = [2]"
    by (simp add: run_def tasks_add_task_handler tasks_delete_task strip_samples strptime_sample
        next_task_id_def max_default_def pop_def empty_manager_def DeadlineTask_init_def Task_init_def)
  then have "?ts \<noteq> []" by auto
  then have "hd ?ts \<in> set ?ts" by simp
  with id_discipline [of sample_now
      "[Add ''a'' '''' ''Umum'' ''07-11-2026'', Add ''b'' '''' ''Umum'' ''07-11-2026'', Delete 0]"] ids
  show ?thesis by blast
qed

subsection \<open>Validation when a task is added\<close>

text \<open>
  C3 as stated fails. The constructor validates nothing: it builds a record from an
  empty title and a deadline that is no date. The checks are in the add handler, on the
  stripped entries, so a title of blanks, which is not empty, is refused as well; and
  the refusal is a warning dialog, not an exception.
\<close>

theorem construction_validation_counterexample:
  "DeadlineTask_init sample_now 1 '''' '''' ''not a date'' ''Umum''
     = \<lparr>task_id = 1, title = '''', description = '''', category = ''Umum'', completed = False,
        created_date = ''2026-11-04'', deadline = Some ''not a date''\<rparr>
   \<and> TodoApp_add_task sample_now ''  '' ''x'' ''Umum'' ''07-11-2026'' empty_manager
     = (ShowWarning ''Input Error'' ''Judul task tidak boleh kosong!'', empty_manager)"
  by (simp add: DeadlineTask_init_def Task_init_def strftime_Ymd_def sample_now_def zero_pad4_def
        zero_pad2_def digit_char_def digits_def add_task_handler_cases strip_samples)

text \<open>
  C3, amended. The add handler refuses to create a task, with a warning dialog and the
  manager unchanged, exactly when the title is empty after stripping blanks, the
  deadline is empty after stripping, or the stripped deadline is not accepted by
  \<open>strptime\<close> with \<open>%d-%m-%Y\<close> as a calendar date. Otherwise it appends one task with
  \<open>completed = False\<close>, the stripped title and the stripped deadline. The constructors
  themselves validate nothing.
\<close>

theorem add_task_validation:
  "(strip te = [] \<or> strip dle = [] \<or> strptime_dmY (strip dle) = None
      \<longrightarrow> (\<exists>a b. TodoApp_add_task now te de cc dle m = (ShowWarning a b, m)))
   \<and> (\<not> (strip te = [] \<or> strip dle = [] \<or> strptime_dmY (strip dle) = None)
      \<longrightarrow> (\<exists>a b t. TodoApp_add_task now te de cc dle m = (ShowInfo a b, add_task t m)
             \<and> tasks (add_task t m) = tasks m @ [t]
             \<and> completed t = False \<and> title t = strip te \<and> deadline t = Some (strip dle)))"
proof (intro conjI impI)
  assume "strip te = [] \<or> strip dle = [] \<or> strptime_dmY (strip dle) = None"
  then show "\<exists>a b. TodoApp_add_task now te de cc dle m = (ShowWarning a b, m)"
    by (auto simp: add_task_handler_cases)
next
  let ?t = "DeadlineTask_init now (next_task_id (tasks m)) (strip te) (strip de) (strip dle) cc"
  assume "\<not> (strip te = [] \<or> strip dle = [] \<or> strptime_dmY (strip dle) = None)"
  then have "\<exists>a b. TodoApp_add_task now te de cc dle m = (ShowInfo a b, add_task ?t m)"
    by (simp add: add_task_handler_cases)
  moreover have "tasks (add_task ?t m) = tasks m @ [?t]"
    by (simp add: add_task_def tasks_save_tasks)
  moreover have "completed ?t = False \<and> title ?t = strip te \<and> deadline ?t = Some (strip dle)"
    by (simp add: DeadlineTask_init_def Task_init_def)
  ultimately show "\<exists>a b t. TodoApp_add_task now te de cc dle m = (ShowInfo a b, add_task t m)
             \<and> tasks (add_task t m) = tasks m @ [t]
             \<and> completed t = False \<and> title t = strip te \<and> deadline t = Some (strip dle)"
    by blast
qed

theorem add_task_validation_witness:
  "(strip ''  '' = [] \<or> strip ''07-11-2026'' = [] \<or> strptime_dmY (strip ''07-11-2026'') = None)
   \<and> (\<exists>a b. TodoApp_add_task sample_now ''  '' ''x'' ''Umum'' ''07-11-2026'' sample_manager
              = (ShowWarning a b, sample_manager))
   \<and> \<not> (strip ''Tugas'' = [] \<or> strip ''07-11-2026'' = [] \<or> strptime_dmY (strip ''07-11-2026'') = None)
   \<and> (\<exists>a b t. TodoApp_add_task sample_now ''Tugas'' ''x'' ''Umum'' ''07-11-2026'' sample_manager
                = (ShowInfo a b, add_task t sample_manager)
             \<and> tasks (add_task t sample_manager) = tasks sample_manager @ [t]
             \<and> completed t = False \<and> title t = ''Tugas'' \<and> deadline t = Some ''07-11-2026'')"
proof -
  have r: "strip ''  '' = [] \<or> strip ''07-11-2026'' = [] \<or> strptime_dmY (strip ''07-11-2026'') = None"
    by (simp add: strip_samples)
  have a: "\<not> (strip ''Tugas'' = [] \<or> strip ''07-11-2026'' = [] \<or> strptime_dmY (strip ''07-11-2026'') = None)"
    by (simp add: strip_samples strptime_sample)
  from add_task_validation [of "''  ''" "''07-11-2026''" sample_now "''x''" "''Umum''" sample_manager] r
  have 1: "\<exists>a b. TodoApp_add_task sample_now ''  '' ''x'' ''Umum'' ''07-11-2026'' sample_manager
              = (ShowWarning a b, sample_manager)"
    by blast
  from add_task_validation [of "''Tugas''" "''07-11-2026''" sample_now "''x''" "''Umum''" sample_manager] a
  have 2: "\<exists>a b t. TodoApp_add_task sample_now ''Tugas'' ''x'' ''Umum'' ''07-11-2026'' sample_manager
                = (ShowInfo a b, add_task t sample_manager)
             \<and> tasks (add_task t sample_manager) = tasks sample_manager @ [t]
             \<and> completed t = False \<and> title t = strip ''Tugas'' \<and> deadline t = Some (strip ''07-11-2026'')"
    by blast
  from r a 1 2 show ?thesis
    by (simp add: strip_samples)
qed

subsection \<open>Urgency\<close>

lemma int_div_less_iff:
  fixes x k n :: int
  assumes "0 < k"
  shows "x div k < n \<longleftrightarrow> x < n * k"
proof -
  have "(x + (- n) * k) div k = x div k + (- n)"
    using assms by (subst div_mult_self1) simp_all
  then have "(x - n * k) div k = x div k - n"
    by simp
  moreover have "(x - n * k) div k < 0 \<longleftrightarrow> x - n * k < 0"
    using assms by (rule pos_imp_zdiv_neg_iff)
  ultimately show ?thesis by simp
qed

lemma days_lt_iff: "timedelta_days d s us < 3 \<longleftrightarrow> timedelta_us d s us < 3 * us_per_day"
proof -
  have "0 < us_per_day" by (simp add: us_per_day_def)
  then show ?thesis
    unfolding timedelta_days_def by (rule int_div_less_iff)
qed

lemma strptime_midnight:
  "strptime_dmY s = Some d \<Longrightarrow> hour d = 0 \<and> minute d = 0 \<and> second d = 0 \<and> microsecond d = 0"
  by (auto simp: strptime_dmY_def split: list.splits if_splits prod.splits)

lemma sub_us_midnight:
  assumes "strptime_dmY s = Some d"
  shows "datetime_sub_us d now = (toordinal d - toordinal now) * us_per_day - time_of_day_us now"
  using strptime_midnight [OF assms]
  by (simp add: datetime_sub_us_def timedelta_us_def seconds_of_day_def time_of_day_us_def algebra_simps)

lemma ordinal_samples:
  "toordinal \<lparr>year = 2026, month = 11, day = 7, hour = 0, minute = 0, second = 0, microsecond = 0\<rparr> = 739927"
  "toordinal sample_now = 739924"
  "time_of_day_us sample_now = 36000000000"
  "datetime_sub_days \<lparr>year = 2026, month = 11, day = 7, hour = 0, minute = 0, second = 0, microsecond = 0\<rparr>
     sample_now = 2"
  by code_simp+

text \<open>
  C9 as stated fails at the boundary. At 10:00 on 2026-11-04 a task that is not
  completed and whose deadline is 07-11-2026, three days from the current date and so
  not fewer than three, is tagged urgent: the code compares the whole days of the
  time left until the deadline's midnight, which are 2.
\<close>

theorem urgency_counterexample:
  "status_tag sample_now (DeadlineTask_init sample_now 1 ''Laporan'' ''bab 1'' ''07-11-2026'' ''Kuliah'') = Urgent
   \<and> spec_urgency_label sample_now (DeadlineTask_init sample_now 1 ''Laporan'' ''bab 1'' ''07-11-2026'' ''Kuliah'')
       = Pending
   \<and> toordinal \<lparr>year = 2026, month = 11, day = 7, hour = 0, minute = 0, second = 0, microsecond = 0\<rparr>
       - toordinal sample_now = 3"
  by (simp add: status_tag_def spec_urgency_label_def is_completed_def DeadlineTask_init_def Task_init_def
        strptime_sample ordinal_samples)

text \<open>
  C9, amended. The tag is Done (\<open>Completed\<close>) if the task is completed, whatever its
  deadline; otherwise Urgent if the deadline parses and its midnight is less than three
  full days (72 hours) after the current date and time; otherwise Pending, also when
  the deadline does not parse. So whenever the clock is past midnight, a task that is
  not completed is Urgent exactly when its deadline date is at most three calendar
  days after today, every past deadline included.
\<close>

theorem urgency_classification:
  "status_tag now t =
     (if completed t then Completed
      else (case deadline t of
              None \<Rightarrow> Pending
            | Some dl \<Rightarrow>
                (case strptime_dmY dl of
                   None \<Rightarrow> Pending
                 | Some d \<Rightarrow> if datetime_sub_us d now < 3 * us_per_day then Urgent else Pending)))
   \<and> (\<not> completed t \<and> deadline t = Some dl \<and> strptime_dmY dl = Some d
        \<and> 0 < time_of_day_us now \<and> time_of_day_us now < us_per_day
      \<longrightarrow> (status_tag now t = Urgent \<longleftrightarrow> toordinal d - toordinal now \<le> 3))"
proof (intro conjI impI)
  show "status_tag now t =
     (if completed t then Completed
      else (case deadline t of
              None \<Rightarrow> Pending
            | Some dl \<Rightarrow>
                (case strptime_dmY dl of
                   None \<Rightarrow> Pending
                 | Some d \<Rightarrow> if datetime_sub_us d now < 3 * us_per_day then Urgent else Pending)))"
    by (simp add: status_tag_def is_completed_def datetime_sub_days_def datetime_sub_us_def days_lt_iff
          split: option.splits)
next
  assume h: "\<not> completed t \<and> deadline t = Some dl \<and> strptime_dmY dl = Some d
        \<and> 0 < time_of_day_us now \<and> time_of_day_us now < us_per_day"
  then have p: "strptime_dmY dl = Some d" by simp
  from h have "status_tag now t = Urgent \<longleftrightarrow> datetime_sub_us d now < 3 * us_per_day"
    by (simp add: status_tag_def is_completed_def datetime_sub_days_def datetime_sub_us_def days_lt_iff)
  also have "\<dots> \<longleftrightarrow> (toordinal d - toordinal now) * us_per_day - time_of_day_us now < 3 * us_per_day"
    by (simp add: sub_us_midnight [OF p])
  also have "\<dots> \<longleftrightarrow> toordinal d - toordinal now \<le> 3"
    using h by (auto simp: us_per_day_def)
  finally show "status_tag now t = Urgent \<longleftrightarrow> toordinal d - toordinal now \<le> 3" .
qed

theorem urgency_classification_witness:
  "(\<not> completed (DeadlineTask_init sample_now 1 ''Laporan'' ''bab 1'' ''07-11-2026'' ''Kuliah'')
    \<and> deadline (DeadlineTask_init sample_now 1 ''Laporan'' ''bab 1'' ''07-11-2026'' ''Kuliah'') = Some ''07-11-2026''
    \<and> strptime_dmY ''07-11-2026''
        = Some \<lparr>year = 2026, month = 11, day = 7, hour = 0, minute = 0, second = 0, microsecond = 0\<rparr>
    \<and> 0 < time_of_day_us sample_now \<and> time_of_day_us sample_now < us_per_day)
   \<and> (status_tag sample_now (DeadlineTask_init sample_now 1 ''Laporan'' ''bab 1'' ''07-11-2026'' ''Kuliah'') = Urgent
        \<longleftrightarrow> toordinal \<lparr>year = 2026, month = 11, day = 7, hour = 0, minute = 0, second = 0, microsecond = 0\<rparr>
             - toordinal sample_now \<le> 3)"
proof -
  have h: "\<not> completed (DeadlineTask_init sample_now 1 ''Laporan'' ''bab 1'' ''07-11-2026'' ''Kuliah'')
    \<and> deadline (DeadlineTask_init sample_now 1 ''Laporan'' ''bab 1'' ''07-11-2026'' ''Kuliah'') = Some ''07-11-2026''
    \<and> strptime_dmY ''07-11-2026''
        = Some \<lparr>year = 2026, month = 11, day = 7, hour = 0, minute = 0, second = 0, microsecond = 0\<rparr>
    \<and> 0 < time_of_day_us sample_now \<and> time_of_day_us sample_now < us_per_day"
    by (simp add: DeadlineTask_init_def Task_init_def strptime_sample ordinal_samples us_per_day_def)
  from urgency_classification [of sample_now
         "DeadlineTask_init sample_now 1 ''Laporan'' ''bab 1'' ''07-11-2026'' ''Kuliah''" "''07-11-2026''"
         "\<lparr>year = 2026, month = 11, day = 7, hour = 0, minute = 0, second = 0, microsecond = 0\<rparr>"] h
  show ?thesis by blast
qed

subsection \<open>The progress line\<close>

lemma progress_summary_eq:
  "progress_summary ts =
     \<lparr>p_total = int (length ts),
      p_done = int (length (filter completed ts)),
      p_pending = int (length ts) - int (length (filter completed ts)),
      p_percentage =
        (if ts = [] then 0
         else int_of_float (float_mul (int_truediv (int (length (filter completed ts))) (int (length ts))) 100))\<rparr>"
proof -
  have "filter is_completed ts = filter completed ts"
    by (rule filter_cong) (simp_all add: is_completed_def)
  then have "(\<Sum>t\<leftarrow>filter is_completed ts. (1::int)) = int (length (filter completed ts))"
    by (simp add: sum_list_triv)
  then show ?thesis
    by (simp add: progress_summary_def Let_def)
qed

lemma float_samples:
  "int_of_float (float_mul (float_round 1) 100) = 100"
  "int_of_float (float_mul (float_round 0) 100) = 0"
  "int_of_float (float_mul (int_truediv 1 4) 100) = 25"
  "int_of_float (float_mul (int_truediv 2 3) 100) = 66"
  "spec_percent 2 3 = 67"
  by code_simp+

text \<open>
  C5 as stated fails: the percentage is \<open>int(done / total * 100)\<close>, a truncation, not
  a rounding. With 2 of 3 tasks completed the code shows 66, and
  \<open>round(2 / 3 * 100)\<close> is 67.
\<close>

theorem progress_counterexample:
  "progress_summary
     (map (\<lambda>c. (DeadlineTask_init sample_now 1 ''a'' '''' ''07-11-2026'' ''Umum'')\<lparr>completed := c\<rparr>)
        [True, True, False])
     = \<lparr>p_total = 3, p_done = 2, p_pending = 1, p_percentage = 66\<rparr>
   \<and> spec_percent 2 3 = 67"
  by (simp add: progress_summary_eq float_samples)

text \<open>
  C5, amended. \<open>total\<close> is the number of tasks, \<open>done\<close> the number of completed
  tasks, \<open>pending\<close> their difference, and the percentage is \<open>done / total * 100\<close>
  computed in double precision and truncated towards zero when there are tasks, and 0
  when there are none. Four tasks with one completed give 4, 1, 3 and 25; a non-empty
  store with every task completed gives 100, and one with none completed gives 0.
\<close>

theorem progress_arithmetic:
  "p_total (progress_summary ts) = int (length ts)
   \<and> p_done (progress_summary ts) = int (length (filter completed ts))
   \<and> p_pending (progress_summary ts) = p_total (progress_summary ts) - p_done (progress_summary ts)
   \<and> p_percentage (progress_summary ts) =
       (if ts = [] then 0
        else int_of_float (float_mul (int_truediv (int (length (filter completed ts))) (int (length ts))) 100))
   \<and> (length ts = 4 \<and> length (filter completed ts) = 1
        \<longrightarrow> progress_summary ts = \<lparr>p_total = 4, p_done = 1, p_pending = 3, p_percentage = 25\<rparr>)
   \<and> (ts \<noteq> [] \<and> (\<forall>t\<in>set ts. completed t) \<longrightarrow> p_percentage (progress_summary ts) = 100)
   \<and> ((\<forall>t\<in>set ts. \<not> completed t) \<longrightarrow> p_percentage (progress_summary ts) = 0)"
proof (intro conjI impI)
  assume "length ts = 4 \<and> length (filter completed ts) = 1"
  moreover from this have "ts \<noteq> []" by auto
  ultimately show "progress_summary ts = \<lparr>p_total = 4, p_done = 1, p_pending = 3, p_percentage = 25\<rparr>"
    by (simp add: progress_summary_eq float_samples)
next
  assume h: "ts \<noteq> [] \<and> (\<forall>t\<in>set ts. completed t)"
  then have "filter completed ts = ts" by simp
  moreover from h have "int_truediv (int (length ts)) (int (length ts)) = float_round 1"
    by (simp add: int_truediv_def)
  ultimately show "p_percentage (progress_summary ts) = 100"
    using h by (simp add: progress_summary_eq float_samples)
next
  assume "\<forall>t\<in>set ts. \<not> completed t"
  then have "filter completed ts = []" by simp
  moreover have "int_truediv 0 (int (length ts)) = float_round 0"
    by (simp add: int_truediv_def)
  ultimately show "p_percentage (progress_summary ts) = 0"
    by (simp add: progress_summary_eq float_samples)
qed (simp_all add: progress_summary_eq)

theorem progress_arithmetic_witness:
  "(length (map (\<lambda>c. (DeadlineTask_init sample_now 1 ''a'' '''' ''07-11-2026'' ''Umum'')\<lparr>completed := c\<rparr>)
              [False, True, False, False]) = 4
    \<and> length (filter completed
         (map (\<lambda>c. (DeadlineTask_init sample_now 1 ''a'' '''' ''07-11-2026'' ''Umum'')\<lparr>completed := c\<rparr>)
              [False, True, False, False])) = 1)
   \<and> progress_summary
        (map (\<lambda>c. (DeadlineTask_init sample_now 1 ''a'' '''' ''07-11-2026'' ''Umum'')\<lparr>completed := c\<rparr>)
              [False, True, False, False])
      = \<lparr>p_total = 4, p_done = 1, p_pending = 3, p_percentage = 25\<rparr>
   \<and> p_percentage (progress_summary
        (map (\<lambda>c. (DeadlineTask_init sample_now 1 ''a'' '''' ''07-11-2026'' ''Umum'')\<lparr>completed := c\<rparr>)
              [True, True])) = 100
   \<and> p_percentage (progress_summary
        (map (\<lambda>c. (DeadlineTask_init sample_now 1 ''a'' '''' ''07-11-2026'' ''Umum'')\<lparr>completed := c\<rparr>)
              [False, False])) = 0
   \<and> p_percentage (progress_summary []) = 0"
  using
    progress_arithmetic [of "map (\<lambda>c. (DeadlineTask_init sample_now 1 ''a'' '''' ''07-11-2026'' ''Umum'')\<lparr>completed := c\<rparr>)
              [False, True, False, False]"]
    progress_arithmetic [of "map (\<lambda>c. (DeadlineTask_init sample_now 1 ''a'' '''' ''07-11-2026'' ''Umum'')\<lparr>completed := c\<rparr>)
              [True, True]"]
    progress_arithmetic [of "map (\<lambda>c. (DeadlineTask_init sample_now 1 ''a'' '''' ''07-11-2026'' ''Umum'')\<lparr>completed := c\<rparr>)
              [False, False]"]
    progress_arithmetic [of "[]"]
  by simp

subsection \<open>The search filter\<close>

lemma str_in_sublist: "str_in q s = sublist q s"
  by (induction s) (simp_all add: sublist_Cons_right)

lemma sublist_sep:
  assumes "c \<notin> set q"
  shows "sublist q (a @ c # b) \<longleftrightarrow> sublist q a \<or> sublist q b"
proof
  assume "sublist q (a @ c # b)"
  then consider "sublist q a" | "sublist q (c # b)"
    | xs1 xs2 where "q = xs1 @ xs2" "suffix xs1 a" "prefix xs2 (c # b)"
    unfolding sublist_append by blast
  then show "sublist q a \<or> sublist q b"
  proof cases
    case 1
    then show ?thesis by simp
  next
    case 2
    then have "prefix q (c # b) \<or> sublist q b" by (simp add: sublist_Cons_right)
    moreover have "prefix q (c # b) \<Longrightarrow> q = []"
      using assms by (cases q) auto
    ultimately show ?thesis by auto
  next
    case 3
    from 3(3) assms 3(1) have "xs2 = []" by (cases xs2) auto
    with 3(1) 3(2) have "suffix q a" by simp
    then show ?thesis by (auto simp: suffix_imp_sublist)
  qed
next
  assume "sublist q a \<or> sublist q b"
  then show "sublist q (a @ c # b)"
    by (auto simp: sublist_append sublist_Cons_right)
qed

lemma lower_space: "lower_char (CHR '' '') = CHR '' ''"
  by code_simp

lemma combined_text_eq:
  "combined_text t = lower (title t) @ CHR '' '' # lower (description t) @ CHR '' '' # lower (category t)"
  by (simp add: combined_text_def lower_def lower_space)

lemma str_in_combined:
  assumes "CHR '' '' \<notin> set q"
  shows "str_in q (combined_text t)
           \<longleftrightarrow> str_in q (lower (title t)) \<or> str_in q (lower (description t)) \<or> str_in q (lower (category t))"
  by (simp add: str_in_sublist combined_text_eq sublist_sep [OF assms])

lemma rows_positions:
  "map (\<lambda>(idx, t, tg). (idx, t)) (refresh_rows now x ts)
     = filter (\<lambda>(idx, t). str_in (lower (strip x)) (combined_text t)) (enumerate 0 ts)"
proof -
  let ?q = "lower (strip x)"
  let ?kept = "filter (\<lambda>(idx, t). \<not> (?q \<noteq> [] \<and> \<not> str_in ?q (combined_text t))) (enumerate 0 ts)"
  have "map (\<lambda>(idx, t, tg). (idx, t)) (refresh_rows now x ts)
        = map ((\<lambda>(idx, t, tg). (idx, t)) \<circ> (\<lambda>(idx, t). (idx, t, status_tag now t))) ?kept"
    by (simp only: refresh_rows_def Let_def map_map)
  also have "\<dots> = ?kept"
    by (rule map_idI) auto
  also have "?kept = filter (\<lambda>(idx, t). str_in ?q (combined_text t)) (enumerate 0 ts)"
    by (rule filter_cong) (auto simp: str_in_sublist)
  finally show ?thesis .
qed

lemma filter_samples:
  "strip ''a b'' = ''a b''"
  "lower ''a b'' = ''a b''"
  "combined_text (DeadlineTask_init sample_now 1 ''a'' ''b'' ''07-11-2026'' ''Umum'') = ''a b umum''"
  "str_in ''a b'' ''a b umum''"
  "spec_query ''a b'' [DeadlineTask_init sample_now 1 ''a'' ''b'' ''07-11-2026'' ''Umum''] = []"
  "CHR '' '' \<notin> set (lower (strip ''LAP''))"
  "map fst (spec_query (strip ''LAP'') sample_tasks) = [0]"
  by code_simp+

text \<open>
  C6 as stated fails: the code searches the title, the description and the category
  joined by single blanks, so the filter text \<open>a b\<close> finds the task with title \<open>a\<close>
  and description \<open>b\<close>, of which no field contains \<open>a b\<close>.
\<close>

theorem filter_counterexample:
  "map (\<lambda>(idx, t, tg). (idx, t))
     (refresh_rows sample_now ''a b'' [DeadlineTask_init sample_now 1 ''a'' ''b'' ''07-11-2026'' ''Umum''])
     = [(0, DeadlineTask_init sample_now 1 ''a'' ''b'' ''07-11-2026'' ''Umum'')]
   \<and> spec_query ''a b'' [DeadlineTask_init sample_now 1 ''a'' ''b'' ''07-11-2026'' ''Umum''] = []"
  by (simp add: rows_positions filter_samples enumerate_eq_zip)

text \<open>
  C6, amended. With \<open>q\<close> the filter text stripped of surrounding blanks and lowercased,
  the rows shown are exactly the tasks, paired with their original positions and in
  their original order, whose lowercased title, description and category, joined by
  single blanks, contain \<open>q\<close>. When \<open>q\<close> has no blank inside, these are exactly the
  tasks of which the title, the description or the category contains the stripped
  filter text case-insensitively. A filter text that is empty or all blanks shows every
  task in the original order.
\<close>

theorem filter_correctness:
  "map (\<lambda>(idx, t, tg). (idx, t)) (refresh_rows now x ts)
     = filter (\<lambda>(idx, t). str_in (lower (strip x)) (combined_text t)) (enumerate 0 ts)
   \<and> (CHR '' '' \<notin> set (lower (strip x))
        \<longrightarrow> map (\<lambda>(idx, t, tg). (idx, t)) (refresh_rows now x ts) = spec_query (strip x) ts)
   \<and> (strip x = []
        \<longrightarrow> map (\<lambda>(idx, t, tg). (idx, t)) (refresh_rows now x ts) = enumerate 0 ts)"
proof (intro conjI impI)
  show "map (\<lambda>(idx, t, tg). (idx, t)) (refresh_rows now x ts)
     = filter (\<lambda>(idx, t). str_in (lower (strip x)) (combined_text t)) (enumerate 0 ts)"
    by (rule rows_positions)
next
  assume h: "CHR '' '' \<notin> set (lower (strip x))"
  have "filter (\<lambda>(idx, t). str_in (lower (strip x)) (combined_text t)) (enumerate 0 ts)
        = spec_query (strip x) ts"
    unfolding spec_query_def
    by (rule filter_cong) (auto simp: contains_ci_def str_in_combined [OF h])
  then show "map (\<lambda>(idx, t, tg). (idx, t)) (refresh_rows now x ts) = spec_query (strip x) ts"
    by (simp add: rows_positions)
next
  assume "strip x = []"
  then have "filter (\<lambda>(idx, t). str_in (lower (strip x)) (combined_text t)) (enumerate 0 ts)
             = enumerate 0 ts"
    by (simp add: lower_def str_in_sublist)
  then show "map (\<lambda>(idx, t, tg). (idx, t)) (refresh_rows now x ts) = enumerate 0 ts"
    by (simp add: rows_positions)
qed

theorem filter_correctness_witness:
  "CHR '' '' \<notin> set (lower (strip ''LAP''))
   \<and> map (\<lambda>(idx, t, tg). (idx, t)) (refresh_rows sample_now ''LAP'' sample_tasks)
       = spec_query (strip ''LAP'') sample_tasks
   \<and> map fst (spec_query (strip ''LAP'') sample_tasks) = [0]
   \<and> strip ''  '' = []
   \<and> map (\<lambda>(idx, t, tg). (idx, t)) (refresh_rows sample_now ''  '' sample_tasks)
       = enumerate 0 sample_tasks"
proof -
  have h1: "CHR '' '' \<notin> set (lower (strip ''LAP''))"
    by (rule filter_samples)
  have h2: "strip ''  '' = []"
    by (simp add: strip_samples)
  from filter_correctness [of sample_now "''LAP''" sample_tasks] h1
  have 1: "map (\<lambda>(idx, t, tg). (idx, t)) (refresh_rows sample_now ''LAP'' sample_tasks)
       = spec_query (strip ''LAP'') sample_tasks"
    by blast
  from filter_correctness [of sample_now "''  ''" sample_tasks] h2
  have 2: "map (\<lambda>(idx, t, tg). (idx, t)) (refresh_rows sample_now ''  '' sample_tasks)
       = enumerate 0 sample_tasks"
    by blast
  from h1 h2 1 2 filter_samples(7) show ?thesis
    by blast
qed

end
